theory Spec2Isabelle
  imports Complex_Main
begin

section \<open>Common data\<close>

text \<open>
  Dense vectors and matrices of the library (Eigen's \<open>Vector\<close> and \<open>Matrix\<close>) are lists
  and lists of rows. A \<open>double\<close> is modelled by a real number, so every operation is
  exact; where a claim depends on \<open>NaN\<close> or on an absent (infinite) bound the model says
  so explicitly with its own datatype or with \<open>real option\<close>.
\<close>

type_synonym Vector = "real list"
type_synonym Matrix = "real list list"
type_synonym Indices = "nat list"

datatype failure = AssertionFailed string

text \<open>
  Modelled from the spec: \<open>norminf\<close> is called by \<open>BasicSolver.cpp\<close> but its definition is
  not part of the sources; it is the infinity norm, the largest absolute entry (zero for
  the empty vector).
\<close>

definition norminf :: "Vector \<Rightarrow> real" where
  "norminf v = foldr (\<lambda>a r. max \<bar>a\<bar> r) v 0"

text \<open>Eigen's indexed assignment \<open>v(idx) = vals\<close>: entry \<open>idx[k]\<close> receives \<open>vals[k]\<close>.\<close>

definition assign_at :: "Indices \<Rightarrow> 'a list \<Rightarrow> 'a list \<Rightarrow> 'a list" where
  "assign_at idx vals v = fold (\<lambda>(i, a) w. w[i := a]) (zip idx vals) v"

section \<open>BasicSolver (BasicSolver.cpp)\<close>

datatype StepMode = Conservative | Aggressive

record Options =
  tolerance :: real
  max_iterations :: nat
  step :: StepMode

record Result =
  succeeded :: bool
  iterations :: nat
  error :: real
  error_optimality :: real
  error_feasibility :: real
  time :: real
  time_linear_systems :: real

text \<open>The default member initialisers of \<open>Result.hpp\<close>.\<close>

definition Result_default :: Result where
  "Result_default = \<lparr> succeeded = False, iterations = 0, error = 0, error_optimality = 0,
     error_feasibility = 0, time = 0, time_linear_systems = 0 \<rparr>"

record BasicState =
  state_x :: Vector
  state_y :: Vector

record BasicParams =
  params_b :: Vector
  params_xlower :: Vector
  params_xupper :: Vector
  params_xfixed :: Vector

record BasicConstraints =
  ilower :: Indices
  iupper :: Indices
  ifixed :: Indices

text \<open>
  What the objective callback writes into \<open>f\<close>, \<open>g\<close> and \<open>H\<close>. The flag \<open>obj_finite\<close>
  stands for \<open>std::isfinite(f) && g.allFinite() && H.allFinite()\<close>, which real numbers
  cannot express.
\<close>

record ObjectiveEval =
  obj_f :: real
  obj_g :: Vector
  obj_H :: Matrix
  obj_finite :: bool

record ConstraintEval =
  con_h :: Vector
  con_J :: Matrix

record BasicProblem =
  dims_x :: nat
  dims_b :: nat
  dims_h :: nat
  constraints :: BasicConstraints
  objective :: "Vector \<Rightarrow> ObjectiveEval"
  constraint_h :: "Vector \<Rightarrow> ConstraintEval"

text \<open>
  The Newton step calculator \<open>ActiveStepper\<close> is not part of the sources. Its two calls
  \<open>decompose({x, y, J, g, H})\<close> and \<open>solve({x, y, b, h, g}, {dx, dy, rx, ry, z})\<close> are one
  function parameter of the solver, from the inputs to the five output vectors.
\<close>

record StepperIn =
  in_x :: Vector
  in_y :: Vector
  in_J :: Matrix
  in_g :: Vector
  in_H :: Matrix
  in_b :: Vector
  in_h :: Vector

record StepperOut =
  out_dx :: Vector
  out_dy :: Vector
  out_rx :: Vector
  out_ry :: Vector
  out_z :: Vector

datatype callback = ObjectiveCall Vector | ConstraintCall Vector

text \<open>
  The members of \<open>BasicSolver::Impl\<close>. \<open>calls\<close> is a ghost field: the callbacks invoked
  so far, latest last. The bound vectors hold \<open>None\<close> for an infinite (absent) bound.
\<close>

record Impl =
  problem :: BasicProblem
  stepper :: "StepperIn \<Rightarrow> StepperOut"
  options :: Options
  impl_h :: Vector
  impl_J :: Matrix
  impl_f :: ObjectiveEval
  result :: Result
  impl_dx :: Vector
  impl_dy :: Vector
  impl_rx :: Vector
  impl_ry :: Vector
  impl_z :: Vector
  xtrial :: Vector
  dxtrial :: Vector
  xlower :: "real option list"
  xupper :: "real option list"
  impl_n :: nat
  impl_mb :: nat
  impl_mh :: nat
  impl_m :: nat
  calls :: "callback list"

text \<open>\<open>std::max(a, lower)\<close> and \<open>std::min(a, upper)\<close> against a possibly infinite bound.\<close>

fun max_lower :: "real \<Rightarrow> real option \<Rightarrow> real" where
  "max_lower a None = a"
| "max_lower a (Some l) = max a l"

fun min_upper :: "real \<Rightarrow> real option \<Rightarrow> real" where
  "min_upper a None = a"
| "min_upper a (Some u) = min a u"

text \<open>The loops \<open>for(Index i : ilower) v[i] = std::max(v[i], xlower[i])\<close> and its twin.\<close>

definition clamp_lower :: "Indices \<Rightarrow> real option list \<Rightarrow> Vector \<Rightarrow> Vector" where
  "clamp_lower idx lo v = fold (\<lambda>i w. w[i := max_lower (w ! i) (lo ! i)]) idx v"

definition clamp_upper :: "Indices \<Rightarrow> real option list \<Rightarrow> Vector \<Rightarrow> Vector" where
  "clamp_upper idx up v = fold (\<lambda>i w. w[i := min_upper (w ! i) (up ! i)]) idx v"

definition evaluateObjectiveFunction :: "Impl \<Rightarrow> BasicState \<Rightarrow> Impl" where
  "evaluateObjectiveFunction I s =
     I\<lparr> impl_f := objective (problem I) (state_x s),
        calls := calls I @ [ObjectiveCall (state_x s)] \<rparr>"

definition evaluateConstraintFunction :: "Impl \<Rightarrow> BasicState \<Rightarrow> Impl" where
  "evaluateConstraintFunction I s =
     (if impl_mh I = 0 then I
      else let r = constraint_h (problem I) (state_x s)
           in I\<lparr> impl_h := con_h r, impl_J := con_J r,
                 calls := calls I @ [ConstraintCall (state_x s)] \<rparr>)"

text \<open>\<open>lin_time\<close> is the reading of the timer added to \<open>time_linear_systems\<close>.\<close>

definition computeNewtonStep :: "real \<Rightarrow> Impl \<Rightarrow> BasicParams \<Rightarrow> BasicState \<Rightarrow> Impl" where
  "computeNewtonStep lin_time I p s =
     (let out = stepper I \<lparr> in_x = state_x s, in_y = state_y s, in_J = impl_J I,
                  in_g = obj_g (impl_f I), in_H = obj_H (impl_f I),
                  in_b = params_b p, in_h = impl_h I \<rparr>
      in I\<lparr> impl_dx := out_dx out, impl_dy := out_dy out, impl_rx := out_rx out,
            impl_ry := out_ry out, impl_z := out_z out,
            result := (result I)\<lparr> time_linear_systems :=
                         time_linear_systems (result I) + lin_time \<rparr> \<rparr>)"

definition updateResultErrors :: "Impl \<Rightarrow> Impl" where
  "updateResultErrors I =
     (let eo = norminf (impl_rx I); ef = norminf (impl_ry I)
      in I\<lparr> result := (result I)\<lparr> error_optimality := eo, error_feasibility := ef,
                                   error := max eo ef \<rparr> \<rparr>)"

definition applyNewtonSteppingAggressive ::
    "Impl \<Rightarrow> BasicParams \<Rightarrow> BasicState \<Rightarrow> Impl \<times> BasicState" where
  "applyNewtonSteppingAggressive I p s =
     (let c = constraints (problem I);
          xt0 = map2 (+) (state_x s) (impl_dx I);
          xt1 = clamp_lower (ilower c) (xlower I) xt0;
          xt2 = clamp_upper (iupper c) (xupper I) xt1;
          dxt = map2 (-) xt2 (state_x s);
          y' = map2 (+) (state_y s) (impl_dy I);
          x' = assign_at (ifixed c) (params_xfixed p) xt2
      in (I\<lparr> xtrial := xt2, dxtrial := dxt \<rparr>, s\<lparr> state_x := x', state_y := y' \<rparr>))"

text \<open>The body of the conservative scheme is commented out in the source: it does nothing.\<close>

definition applyNewtonSteppingConservative ::
    "Impl \<Rightarrow> BasicParams \<Rightarrow> BasicState \<Rightarrow> Impl \<times> BasicState" where
  "applyNewtonSteppingConservative I p s = (I, s)"

definition applyNewtonStepping :: "Impl \<Rightarrow> BasicParams \<Rightarrow> BasicState \<Rightarrow> Impl \<times> BasicState" where
  "applyNewtonStepping I p s =
     (case step (options I) of
        Aggressive \<Rightarrow> applyNewtonSteppingAggressive I p s
      | Conservative \<Rightarrow> applyNewtonSteppingConservative I p s)"

definition converged :: "Impl \<Rightarrow> bool" where
  "converged I \<longleftrightarrow> error (result I) < tolerance (options I)"

text \<open>
  An \<open>Assert\<close> that fails throws: the failure carries the solver and the caller's state
  as the exception leaves them.
\<close>

definition initialize ::
    "real \<Rightarrow> Impl \<Rightarrow> BasicParams \<Rightarrow> BasicState \<Rightarrow> failure \<times> Impl \<times> BasicState + Impl \<times> BasicState" where
  "initialize lin_time I p s =
     (let c = constraints (problem I);
          I1 = I\<lparr> xlower := assign_at (ilower c) (map Some (params_xlower p)) (xlower I),
                  xupper := assign_at (iupper c) (map Some (params_xupper p)) (xupper I) \<rparr>
      in if length (state_x s) \<noteq> impl_n I1 then
           Inl (AssertionFailed ''The size of vector x has not been properly initialized.'', I1, s)
         else if length (state_y s) \<noteq> impl_m I1 then
           Inl (AssertionFailed ''The size of vector y has not been properly initialized.'', I1, s)
         else
           let x1 = clamp_lower (ilower c) (xlower I1) (state_x s);
               x2 = clamp_upper (iupper c) (xupper I1) x1;
               x3 = assign_at (ifixed c) (params_xfixed p) x2;
               s1 = s\<lparr> state_x := x3 \<rparr>;
               I2 = evaluateObjectiveFunction I1 s1;
               I3 = evaluateConstraintFunction I2 s1
           in if \<not> obj_finite (impl_f I3) then
                Inl (AssertionFailed ''Failure evaluating the objective function.'', I3, s1)
              else Inr (updateResultErrors (computeNewtonStep lin_time I3 p s1), s1))"

text \<open>
  The body of the \<open>for\<close> loop of \<open>solve\<close>, in two halves: up to the convergence test
  that may \<open>break\<close>, and from there to the increment of \<open>iterations\<close>.
\<close>

definition loop_head :: "BasicParams \<Rightarrow> Impl \<Rightarrow> BasicState \<Rightarrow> Impl \<times> BasicState" where
  "loop_head p I s =
     (let (I1, s1) = applyNewtonStepping I p s
      in (I1\<lparr> result := (result I1)\<lparr> succeeded := converged I1 \<rparr> \<rparr>, s1))"

definition loop_tail :: "real \<Rightarrow> BasicParams \<Rightarrow> Impl \<Rightarrow> BasicState \<Rightarrow> Impl" where
  "loop_tail lin_time p I s =
     (let I3 = evaluateObjectiveFunction I s;
          I4 = computeNewtonStep lin_time I3 p s;
          I5 = updateResultErrors I4
      in I5\<lparr> result := (result I5)\<lparr> iterations := Suc (iterations (result I5)) \<rparr> \<rparr>)"

function solve_loop ::
    "real \<Rightarrow> nat \<Rightarrow> BasicParams \<Rightarrow> Impl \<Rightarrow> BasicState \<Rightarrow> Impl \<times> BasicState" where
  "solve_loop lin_time maxiters p I s =
     (if iterations (result I) \<le> maxiters \<and> \<not> succeeded (result I) then
        (case loop_head p I s of (I2, s1) \<Rightarrow>
           if succeeded (result I2) then (I2, s1)
           else solve_loop lin_time maxiters p (loop_tail lin_time p I2 s1) s1)
      else (I, s))"
  by pat_completeness auto

lemma applyNewtonStepping_result:
  "applyNewtonStepping I p s = (I1, s1) \<Longrightarrow> result I1 = result I \<and> options I1 = options I"
  by (cases "step (options I)")
     (auto simp: applyNewtonStepping_def applyNewtonSteppingAggressive_def
        applyNewtonSteppingConservative_def Let_def)

lemma loop_head_iterations:
  "loop_head p I s = (I2, s1) \<Longrightarrow> iterations (result I2) = iterations (result I)"
  by (auto simp: loop_head_def split: prod.splits dest: applyNewtonStepping_result)

lemma loop_tail_iterations:
  "iterations (result (loop_tail lin_time p I s)) = Suc (iterations (result I))"
  by (simp add: loop_tail_def Let_def updateResultErrors_def computeNewtonStep_def
      evaluateObjectiveFunction_def)

termination solve_loop
  by (relation "measure (\<lambda>(lin_time, maxiters, p, I, s). Suc maxiters - iterations (result I))")
     (auto simp: loop_tail_iterations dest!: loop_head_iterations [OF sym])

declare solve_loop.simps [simp del]

text \<open>
  \<open>elapsed\<close> is the reading of the timer of \<open>solve\<close>. The calls of the outputter only
  print and are left out.
\<close>

definition solve ::
    "real \<Rightarrow> real \<Rightarrow> Impl \<Rightarrow> BasicParams \<Rightarrow> BasicState
      \<Rightarrow> failure \<times> Impl \<times> BasicState + Result \<times> Impl \<times> BasicState" where
  "solve elapsed lin_time I p s =
     (if impl_n I = 0 then
        let I' = I\<lparr> result := (result I)\<lparr> succeeded := True, time := elapsed \<rparr> \<rparr>
        in Inr (result I', I', s)
      else
        let maxiters = max_iterations (options I);
            I0 = I\<lparr> result := (result I)\<lparr> succeeded := False \<rparr> \<rparr>
        in case initialize lin_time I0 p s of
             Inl e \<Rightarrow> Inl e
           | Inr (I1, s1) \<Rightarrow>
               (case solve_loop lin_time maxiters p
                       (I1\<lparr> result := (result I1)\<lparr> iterations := 1 \<rparr> \<rparr>) s1 of
                  (I2, s2) \<Rightarrow>
                    let I3 = I2\<lparr> result := (result I2)\<lparr> time := elapsed \<rparr> \<rparr>
                    in Inr (result I3, I3, s2)))"

text \<open>
  The constructor \<open>Impl(problem)\<close>. Resized vectors are filled with zeros; both bound
  vectors start infinite. The two \<open>Assert\<close>s test the callbacks against \<open>nullptr\<close>, which
  a function of the model never is.
\<close>

definition Options_default :: Options where
  "Options_default = \<lparr> tolerance = 1 / 10 ^ 6, max_iterations = 200, step = Aggressive \<rparr>"

definition BasicSolver_new :: "BasicProblem \<Rightarrow> (StepperIn \<Rightarrow> StepperOut) \<Rightarrow> Impl" where
  "BasicSolver_new prob stp =
     (let n = dims_x prob; mb = dims_b prob; mh = dims_h prob
      in \<lparr> problem = prob, stepper = stp, options = Options_default,
           impl_h = replicate mh 0, impl_J = replicate mh (replicate n 0),
           impl_f = \<lparr> obj_f = 0, obj_g = replicate n 0, obj_H = replicate n (replicate n 0),
                      obj_finite = True \<rparr>,
           result = Result_default,
           impl_dx = [], impl_dy = [], impl_rx = [], impl_ry = [], impl_z = [],
           xtrial = replicate n 0, dxtrial = [],
           xlower = replicate n None, xupper = replicate n None,
           impl_n = n, impl_mb = mb, impl_mh = mh, impl_m = mb + mh, calls = [] \<rparr>)"

definition setOptions :: "Options \<Rightarrow> Impl \<Rightarrow> Impl" where
  "setOptions opts I = I\<lparr> options := opts \<rparr>"

text \<open>The solvers a program can hold: built by the constructor, then used.\<close>

inductive reachable :: "Impl \<Rightarrow> bool" where
  new: "reachable (BasicSolver_new prob stp)"
| set_options: "reachable I \<Longrightarrow> reachable (setOptions opts I)"
| solved: "reachable I \<Longrightarrow> solve elapsed lin_time I p s = Inr (r, I', s') \<Longrightarrow> reachable I'"
| thrown: "reachable I \<Longrightarrow> solve elapsed lin_time I p s = Inl (e, I', s') \<Longrightarrow> reachable I'"







section \<open>NewtonStep (NewtonStep.cpp)\<close>



text \<open>
  The projection of a value onto its bounds, what it means to respect them, and the
  bound vectors a solver holds between \<open>initialize\<close> and the end of \<open>solve\<close>: one
  entry per variable, a finite bound only at an index of \<open>ilower\<close> or \<open>iupper\<close>, and
  no lower bound above the upper one.
\<close>

definition clamped :: "real option \<Rightarrow> real option \<Rightarrow> real \<Rightarrow> real" where
  "clamped lo up a = min_upper (max_lower a lo) up"

definition in_bounds :: "real option \<Rightarrow> real option \<Rightarrow> real \<Rightarrow> bool" where
  "in_bounds lo up a \<longleftrightarrow>
     (case lo of None \<Rightarrow> True | Some l \<Rightarrow> l \<le> a) \<and> (case up of None \<Rightarrow> True | Some u \<Rightarrow> a \<le> u)"









section \<open>ResidualFunction (ResidualFunction.cpp)\<close>




























section \<open>LU (LU.cpp)\<close>

text \<open>
  Where \<open>NaN\<close> matters a \<open>double\<close> is either \<open>NaN\<close> or a real number; arithmetic
  propagates \<open>NaN\<close>.
\<close>

datatype dbl = NaN | Num real

fun isNaN :: "dbl \<Rightarrow> bool" where
  "isNaN NaN = True"
| "isNaN (Num a) = False"

fun dbl_minus :: "dbl \<Rightarrow> dbl \<Rightarrow> dbl" where
  "dbl_minus (Num a) (Num b) = Num (a - b)"
| "dbl_minus a b = NaN"

fun dbl_plus :: "dbl \<Rightarrow> dbl \<Rightarrow> dbl" where
  "dbl_plus (Num a) (Num b) = Num (a + b)"
| "dbl_plus a b = NaN"

text \<open>A dense matrix: its dimensions and its coefficients (read only inside them).\<close>

record 'a mat =
  rows :: nat
  cols :: nat
  coeff :: "nat \<Rightarrow> nat \<Rightarrow> 'a"

text \<open>
  The members of \<open>LU::Impl\<close>: Eigen's partial-pivoting factorisation (the matrix holding
  \<open>L\<close> and \<open>U\<close>, and the indices of the row permutation \<open>P\<close>) and the rank.
\<close>

record LU_Impl =
  matrixLU :: "real mat"
  permutationP :: Indices
  rank :: nat

text \<open>
  \<open>P.applyThisOnTheLeft(X)\<close> for a permutation given by its indices: row \<open>i\<close> of \<open>X\<close>
  becomes row \<open>P[i]\<close>.
\<close>

definition applyThisOnTheLeft :: "Indices \<Rightarrow> 'a mat \<Rightarrow> 'a mat" where
  "applyThisOnTheLeft P X =
     X\<lparr> coeff := fold (\<lambda>i c. c(P ! i := coeff X i)) [0..<rows X] (coeff X) \<rparr>"

text \<open>The block views \<open>topLeftCorner\<close> and \<open>topRows\<close>, and assignment through the views
  \<open>topRows\<close> and \<open>bottomRows\<close>.\<close>

definition topLeftCorner :: "nat \<Rightarrow> nat \<Rightarrow> 'a mat \<Rightarrow> 'a mat" where
  "topLeftCorner r c X = X\<lparr> rows := r, cols := c \<rparr>"

definition topRows :: "nat \<Rightarrow> 'a mat \<Rightarrow> 'a mat" where
  "topRows r X = X\<lparr> rows := r \<rparr>"

definition assign_topRows :: "nat \<Rightarrow> 'a mat \<Rightarrow> 'a mat \<Rightarrow> 'a mat" where
  "assign_topRows r Y X = X\<lparr> coeff := (\<lambda>i j. if i < r then coeff Y i j else coeff X i j) \<rparr>"

definition fill_bottomRows :: "nat \<Rightarrow> 'a \<Rightarrow> 'a mat \<Rightarrow> 'a mat" where
  "fill_bottomRows k v X =
     X\<lparr> coeff := (\<lambda>i j. if rows X - k \<le> i \<and> i < rows X then v else coeff X i j) \<rparr>"

text \<open>
  \<open>LU::Impl::solve\<close>. The triangular solves of Eigen are the parameters \<open>Lsolve\<close> (unit
  lower part of its first argument) and \<open>Usolve\<close> (upper part).
\<close>

definition LU_solve ::
    "(real mat \<Rightarrow> dbl mat \<Rightarrow> dbl mat) \<Rightarrow> (real mat \<Rightarrow> dbl mat \<Rightarrow> dbl mat) \<Rightarrow> LU_Impl \<Rightarrow> dbl mat
      \<Rightarrow> failure + dbl mat" where
  "LU_solve Lsolve Usolve lu X =
     (let n = rows (matrixLU lu)
      in if n \<noteq> rows X then Inl (AssertionFailed ''n == X.rows()'')
         else
           let M = topLeftCorner (rank lu) (rank lu) (matrixLU lu);
               X1 = applyThisOnTheLeft (permutationP lu) X;
               X2 = assign_topRows (rank lu) (Lsolve M (topRows (rank lu) X1)) X1;
               X3 = assign_topRows (rank lu) (Usolve M (topRows (rank lu) X2)) X2
           in Inr (fill_bottomRows (n - rank lu) NaN X3))"

section \<open>Stepper (Stepper.cpp)\<close>

text \<open>The index sets a \<open>Stability\<close> object answers with.\<close>

record Stability =
  indicesStableVariables :: Indices
  indicesUnstableVariables :: Indices
  indicesStrictlyUnstableVariables :: Indices

text \<open>
  The saddle point solver is not part of the sources; its call
  \<open>solve({H, J, xprime, g, b, h, xbar, ybar})\<close> is a function from the six inputs to the
  two solution vectors.
\<close>

record SaddlePointSolveArgs =
  sp_H :: "dbl mat"
  sp_J :: "dbl mat"
  sp_x :: "dbl list"
  sp_g :: "dbl list"
  sp_b :: "dbl list"
  sp_h :: "dbl list"

record 'a Stepper_Impl =
  stepper_W :: "'a mat"
  stepper_xbar :: "'a list"
  stepper_ybar :: "'a list"
  stepper_n :: nat
  stepper_ml :: nat
  stepper_mn :: nat
  stepper_m :: nat

record StepperSolveArgs =
  args_x :: "dbl list"
  args_y :: "dbl list"
  args_b :: "dbl list"
  args_g :: "dbl list"
  args_H :: "dbl mat"
  args_h :: "dbl list"
  args_stability :: Stability

text \<open>\<open>v(idx).fill(a)\<close>.\<close>

definition fill_at :: "Indices \<Rightarrow> 'a \<Rightarrow> 'a list \<Rightarrow> 'a list" where
  "fill_at idx a v = fold (\<lambda>i w. w[i := a]) idx v"

text \<open>\<open>v.array().isNaN().select(0.0, v)\<close>.\<close>

definition select_not_NaN :: "dbl list \<Rightarrow> dbl list" where
  "select_not_NaN v = map (\<lambda>a. if isNaN a then Num 0 else a) v"

definition bottomRows :: "nat \<Rightarrow> 'a mat \<Rightarrow> 'a mat" where
  "bottomRows k X = \<lparr> rows = k, cols = cols X, coeff = (\<lambda>i j. coeff X (rows X - k + i) j) \<rparr>"

text \<open>\<open>Stepper::Impl::solve\<close>; it returns the stepper with the steps \<open>dx\<close> and \<open>dy\<close>.\<close>

definition Stepper_solve ::
    "(SaddlePointSolveArgs \<Rightarrow> dbl list \<times> dbl list) \<Rightarrow> dbl Stepper_Impl \<Rightarrow> StepperSolveArgs
      \<Rightarrow> failure + dbl Stepper_Impl \<times> dbl list \<times> dbl list" where
  "Stepper_solve spsolver_solve I args =
     (let x = args_x args; y = args_y args; J = bottomRows (stepper_mn I) (stepper_W I)
      in if length x \<noteq> stepper_n I \<or> length y \<noteq> stepper_m I
            \<or> length (args_g args) \<noteq> stepper_n I
            \<or> \<not> (cols (stepper_W I) = stepper_n I \<or> stepper_ml I = 0) then
           Inl (AssertionFailed ''Stepper::solve'')
         else
           let isu = indicesStrictlyUnstableVariables (args_stability args);
               xprime = fill_at isu (Num 0) x;
               (xbar, ybar) = spsolver_solve \<lparr> sp_H = args_H args, sp_J = J, sp_x = xprime,
                                sp_g = args_g args, sp_b = args_b args, sp_h = args_h args \<rparr>;
               dx = map2 dbl_minus xbar xprime;
               dy = map2 dbl_minus ybar y;
               dx = select_not_NaN dx;
               dy = select_not_NaN dy
           in Inr (I\<lparr> stepper_xbar := xbar, stepper_ybar := ybar \<rparr>, dx, dy))"

text \<open>
  A rank-one factorisation of a \<open>2 \<times> 2\<close> matrix, and a stepper with two variables and
  one constraint whose saddle point solver answers \<open>NaN\<close> for the first variable and for
  the multiplier.
\<close>

definition ex_lu :: LU_Impl where
  "ex_lu = \<lparr> matrixLU = \<lparr> rows = 2, cols = 2, coeff = (\<lambda>i j. if i = 0 then 1 else 0) \<rparr>,
             permutationP = [0, 1], rank = 1 \<rparr>"

definition ex_rhs :: "dbl mat" where
  "ex_rhs = \<lparr> rows = 2, cols = 1, coeff = (\<lambda>i j. Num 1) \<rparr>"

definition ex_stepper_impl :: "dbl Stepper_Impl" where
  "ex_stepper_impl = \<lparr> stepper_W = \<lparr> rows = 1, cols = 2, coeff = (\<lambda>i j. Num 1) \<rparr>,
     stepper_xbar = [Num 0, Num 0], stepper_ybar = [Num 0],
     stepper_n = 2, stepper_ml = 1, stepper_mn = 0, stepper_m = 1 \<rparr>"

definition ex_solve_args :: StepperSolveArgs where
  "ex_solve_args = \<lparr> args_x = [Num 1, Num 2], args_y = [Num 3], args_b = [Num 1],
     args_g = [Num 0, Num 0], args_H = \<lparr> rows = 2, cols = 2, coeff = (\<lambda>i j. Num 1) \<rparr>,
     args_h = [],
     args_stability = \<lparr> indicesStableVariables = [0, 1], indicesUnstableVariables = [],
                         indicesStrictlyUnstableVariables = [] \<rparr> \<rparr>"

text \<open>
  Modelled from the spec: the saddle point solver is not part of the sources. Its
  \<open>solve\<close> re-uses the cached factorisation to forward/back substitute and sets the
  unstable components of \<open>dx\<close> to 0 (spec, section 4.4). The substitution is the
  function \<open>sp_substitute\<close>; \<open>sp_iu\<close> are the unstable variables the solver was given when
  it decomposed. The overload \<open>solve({x, y})\<close> solves in place: the two vectors hold the
  right-hand side on entry and the solution on return.
\<close>

record SaddlePointSolver =
  sp_substitute :: "Vector \<times> Vector \<Rightarrow> Vector \<times> Vector"
  sp_iu :: Indices

definition SaddlePointSolver_solve :: "SaddlePointSolver \<Rightarrow> Vector \<times> Vector \<Rightarrow> Vector \<times> Vector" where
  "SaddlePointSolver_solve S xy = (case sp_substitute S xy of (dx, dy) \<Rightarrow> (fill_at (sp_iu S) 0 dx, dy))"

record StepperSensitivitiesArgs =
  args_dxdp :: "real mat"
  args_dydp :: "real mat"
  args_dzdp :: "real mat"
  args_dgdp :: "real mat"
  args_dbdp :: "real mat"
  args_dhdp :: "real mat"
  sens_stability :: Stability

text \<open>
  Column \<open>c\<close> of a matrix as a vector, and the assignment of a vector to it (Eigen's
  \<open>X.col(c)\<close>).
\<close>

definition col :: "'a mat \<Rightarrow> nat \<Rightarrow> 'a list" where
  "col X c = map (\<lambda>r. coeff X r c) [0..<rows X]"

definition assign_col :: "nat \<Rightarrow> 'a list \<Rightarrow> 'a mat \<Rightarrow> 'a mat" where
  "assign_col c v X =
     X\<lparr> coeff := (\<lambda>i j. if j = c \<and> i < length v then v ! i else coeff X i j) \<rparr>"

text \<open>\<open>X(idx, all) = E(idx, all)\<close>: the rows listed in \<open>idx\<close> are taken from \<open>E\<close>.\<close>

definition assign_rows :: "Indices \<Rightarrow> (nat \<Rightarrow> nat \<Rightarrow> 'a) \<Rightarrow> 'a mat \<Rightarrow> 'a mat" where
  "assign_rows idx E X = X\<lparr> coeff := (\<lambda>i j. if i \<in> set idx then E i j else coeff X i j) \<rparr>"

text \<open>One pass of the loop over the parameters: the in-place solve for column \<open>c\<close>.\<close>

definition solve_column ::
    "SaddlePointSolver \<Rightarrow> nat \<Rightarrow> real mat \<times> real mat \<Rightarrow> real mat \<times> real mat" where
  "solve_column S c XY =
     (case SaddlePointSolver_solve S (col (fst XY) c, col (snd XY) c) of
        (x, y) \<Rightarrow> (assign_col c x (fst XY), assign_col c y (snd XY)))"

text \<open>\<open>Stepper::Impl::sensitivities\<close>; it returns \<open>dxdp\<close>, \<open>dydp\<close> and \<open>dzdp\<close>.\<close>

definition Stepper_sensitivities ::
    "SaddlePointSolver \<Rightarrow> real Stepper_Impl \<Rightarrow> StepperSensitivitiesArgs
      \<Rightarrow> failure + real mat \<times> real mat \<times> real mat" where
  "Stepper_sensitivities S I args =
     (let dxdp = args_dxdp args; dydp = args_dydp args; dzdp = args_dzdp args;
          dgdp = args_dgdp args; dbdp = args_dbdp args; dhdp = args_dhdp args;
          np = cols dxdp; n = stepper_n I; m = stepper_m I; ml = stepper_ml I;
          mn = stepper_mn I
      in if rows dxdp \<noteq> n \<or> rows dydp \<noteq> m \<or> rows dzdp \<noteq> n \<or> rows dgdp \<noteq> n
            \<or> rows dbdp \<noteq> ml \<or> rows dhdp \<noteq> mn \<or> cols dydp \<noteq> np \<or> cols dzdp \<noteq> np
            \<or> cols dgdp \<noteq> np \<or> cols dbdp \<noteq> np \<or> cols dhdp \<noteq> np then
           Inl (AssertionFailed ''Stepper::sensitivities'')
         else
           let is = indicesStableVariables (sens_stability args);
               iu = indicesUnstableVariables (sens_stability args);
               dxdp = assign_rows is (\<lambda>i j. - coeff dgdp i j) dxdp;
               dxdp = assign_rows iu (\<lambda>i j. 0) dxdp;
               dydp = dydp\<lparr> coeff := (\<lambda>i j. if i < ml then coeff dbdp i j else coeff dydp i j) \<rparr>;
               dydp = dydp\<lparr> coeff := (\<lambda>i j. if rows dydp - mn \<le> i \<and> i < rows dydp
                                               then - coeff dhdp (i - (rows dydp - mn)) j
                                               else coeff dydp i j) \<rparr>;
               (dxdp, dydp) = fold (solve_column S) [0..<np] (dxdp, dydp);
               dzdp = assign_rows is (\<lambda>i j. 0) dzdp;
               dzdp = assign_rows iu
                        (\<lambda>i j. coeff dgdp i j
                                + (\<Sum>k < rows (stepper_W I). coeff (stepper_W I) k i * coeff dydp k j))
                        dzdp
           in Inr (dxdp, dydp, dzdp))"

text \<open>
  A matrix from its rows. The instance: two variables, the second unstable, one linear
  constraint with \<open>W = [1 2]\<close>, one parameter.
\<close>

definition mat_of :: "'a list list \<Rightarrow> nat \<Rightarrow> 'a mat" where
  "mat_of rs c = \<lparr> rows = length rs, cols = c, coeff = (\<lambda>i j. rs ! i ! j) \<rparr>"

definition ex_sens_stepper :: "real Stepper_Impl" where
  "ex_sens_stepper = \<lparr> stepper_W = mat_of [[1, 2]] 2, stepper_xbar = [0, 0], stepper_ybar = [0],
     stepper_n = 2, stepper_ml = 1, stepper_mn = 0, stepper_m = 1 \<rparr>"

definition ex_sens_args :: StepperSensitivitiesArgs where
  "ex_sens_args = \<lparr> args_dxdp = mat_of [[0], [0]] 1, args_dydp = mat_of [[0]] 1,
     args_dzdp = mat_of [[7], [7]] 1, args_dgdp = mat_of [[3], [4]] 1,
     args_dbdp = mat_of [[5]] 1, args_dhdp = mat_of [] 1,
     sens_stability = \<lparr> indicesStableVariables = [0], indicesUnstableVariables = [1],
                         indicesStrictlyUnstableVariables = [] \<rparr> \<rparr>"

definition ex_spsolver :: SaddlePointSolver where
  "ex_spsolver = \<lparr> sp_substitute = (\<lambda>(x, y). (map (\<lambda>a. a + 1) x, y)), sp_iu = [1] \<rparr>"

section \<open>Echelonizer (Echelonizer.cpp)\<close>

text \<open>Machine epsilon of \<open>double\<close>, \<open>2\<^sup>-\<^sup>5\<^sup>2\<close>.\<close>

definition epsilon :: real where
  "epsilon = 1 / 2 ^ 52"

text \<open>
  Modelled from the spec: Eigen's \<open>FullPivLU\<close> is not part of the sources. The object
  holds the factorisation \<open>P A Q = L U\<close> of an \<open>m \<times> n\<close> matrix: one matrix with the unit
  lower \<open>L\<close> below and \<open>U\<close> on and above the diagonal, the indices of the two
  permutations, the largest pivot and the current threshold. Its \<open>rank()\<close> is the
  thresholded inspection of the absolute diagonal of \<open>U\<close>: the number of diagonal entries
  above the largest pivot times the threshold.
\<close>

record FullPivLU =
  lu_rows :: nat
  lu_cols :: nat
  lu_matrixLU :: "real mat"
  lu_permutationP :: Indices
  lu_permutationQ :: Indices
  lu_maxPivot :: real
  lu_threshold :: real

definition lu_rank :: "FullPivLU \<Rightarrow> nat" where
  "lu_rank lu =
     length (filter (\<lambda>i. \<bar>coeff (lu_matrixLU lu) i i\<bar> > \<bar>lu_maxPivot lu\<bar> * lu_threshold lu)
               [0..<min (lu_rows lu) (lu_cols lu)])"

text \<open>
  Eigen's triangular solves in exact arithmetic. \<open>L.solve(B)\<close> for the unit lower
  triangle of \<open>L\<close> is forward substitution, \<open>U.solve(B)\<close> for the upper triangle of an
  \<open>r \<times> r\<close> matrix is back substitution.
\<close>

function forward_subst :: "(nat \<Rightarrow> nat \<Rightarrow> real) \<Rightarrow> (nat \<Rightarrow> nat \<Rightarrow> real) \<Rightarrow> nat \<Rightarrow> nat \<Rightarrow> real" where
  "forward_subst L B i j = B i j - (\<Sum>k \<in> {..<i}. L i k * forward_subst L B k j)"
  by pat_completeness auto

termination
  by (relation "measure (\<lambda>(L, B, i, j). i)") auto

function back_subst :: "nat \<Rightarrow> (nat \<Rightarrow> nat \<Rightarrow> real) \<Rightarrow> (nat \<Rightarrow> nat \<Rightarrow> real) \<Rightarrow> nat \<Rightarrow> nat \<Rightarrow> real" where
  "back_subst r U B i j =
     (B i j - (\<Sum>k \<in> {i<..<r}. U i k * back_subst r U B k j)) / U i i"
  by pat_completeness auto

termination
  by (relation "measure (\<lambda>(r, U, B, i, j). r - i)") auto

definition unit_lower_solve :: "real mat \<Rightarrow> real mat \<Rightarrow> real mat" where
  "unit_lower_solve L B = B\<lparr> coeff := forward_subst (coeff L) (coeff B) \<rparr>"

definition upper_solve :: "real mat \<Rightarrow> real mat \<Rightarrow> real mat" where
  "upper_solve U B = B\<lparr> coeff := back_subst (rows U) (coeff U) (coeff B) \<rparr>"

text \<open>
  The members of \<open>Echelonizer::Impl\<close>. The permutations \<open>Kb\<close> and \<open>Kn\<close> are held by
  their indices.
\<close>

record Echelonizer =
  ech_lu :: FullPivLU
  ech_R :: "real mat"
  ech_S :: "real mat"
  ech_P :: Indices
  ech_Ptr :: Indices
  ech_Q :: Indices
  ech_Qaux :: Indices
  ech_inv_ordering :: Indices
  ech_M :: Vector
  ech_Kb :: Indices
  ech_Kn :: Indices
  ech_R0 :: "real mat"
  ech_S0 :: "real mat"
  ech_Q0 :: Indices
  ech_threshold :: real
  ech_sigma :: real

text \<open>
  \<open>numBasicVariables\<close>. For a very small largest pivot the rank is asked with the
  threshold set to 1; the previous threshold is put back, so the factorisation is left
  as it was.
\<close>

definition numBasicVariables :: "FullPivLU \<Rightarrow> nat" where
  "numBasicVariables lu =
     (if lu_maxPivot lu < 10 * epsilon then
        let previous_threshold = lu_threshold lu;
            lu1 = lu\<lparr> lu_threshold := 1 \<rparr>;
            r = lu_rank lu1;
            lu2 = lu1\<lparr> lu_threshold := previous_threshold \<rparr>
        in r
      else lu_rank lu)"

text \<open>The dense matrix of a permutation given by its indices: a one at \<open>(P[j], j)\<close>.\<close>

definition asPermutation :: "Indices \<Rightarrow> real mat" where
  "asPermutation P =
     \<lparr> rows = length P, cols = length P, coeff = (\<lambda>i j. if i = P ! j then 1 else 0) \<rparr>"

definition topRightCorner :: "nat \<Rightarrow> nat \<Rightarrow> 'a mat \<Rightarrow> 'a mat" where
  "topRightCorner r c X = \<lparr> rows = r, cols = c, coeff = (\<lambda>i j. coeff X i (cols X - c + j)) \<rparr>"

text \<open>The largest absolute coefficient, \<open>A.cwiseAbs().maxCoeff()\<close>.\<close>

definition maxAbsCoeff :: "real mat \<Rightarrow> real" where
  "maxAbsCoeff A =
     foldr max (concat (map (\<lambda>i. map (\<lambda>j. \<bar>coeff A i j\<bar>) [0..<cols A]) [0..<rows A])) 0"

text \<open>
  \<open>sigma = 10^(1 + ceil(log10(max|A|)))\<close>, zero for an empty matrix; for the zero matrix
  the logarithm is \<open>-inf\<close> and the power is zero.
\<close>

definition compute_sigma :: "real mat \<Rightarrow> real" where
  "compute_sigma A =
     (if rows A * cols A = 0 \<or> maxAbsCoeff A = 0 then 0
      else 10 powr (1 + real_of_int \<lceil>log 10 (maxAbsCoeff A)\<rceil>))"

text \<open>
  \<open>compute\<close>. The factorisation of \<open>A\<close> by Eigen is the parameter \<open>decompose\<close>.
\<close>

definition compute :: "(real mat \<Rightarrow> FullPivLU) \<Rightarrow> Echelonizer \<Rightarrow> real mat \<Rightarrow> failure + Echelonizer" where
  "compute decompose E A =
     (let m = rows A; n = cols A
      in if \<not> m \<le> n then
           Inl (AssertionFailed ''The given matrix has more rows than columns.'')
         else
           let lu = decompose A;
               r = numBasicVariables lu;
               L = topLeftCorner m m (lu_matrixLU lu);
               Ubb = topLeftCorner r r (lu_matrixLU lu);
               Ubn = topRightCorner r (n - r) (lu_matrixLU lu);
               P = lu_permutationP lu;
               Q = lu_permutationQ lu;
               Ptr = assign_at P [0..<m] (replicate m 0);
               R1 = asPermutation P;
               R2 = unit_lower_solve L R1;
               R3 = assign_topRows r (upper_solve Ubb (topRows r R2)) R2;
               S1 = upper_solve Ubb Ubn
           in Inr (E\<lparr> ech_inv_ordering := [0..<n], ech_lu := lu, ech_P := P, ech_Q := Q,
                       ech_Qaux := Q, ech_Ptr := Ptr, ech_R := R3, ech_S := S1,
                       ech_Kb := [0..<r], ech_Kn := [0..<n - r],
                       ech_threshold := \<bar>lu_maxPivot lu\<bar> * lu_threshold lu * real (max m n),
                       ech_sigma := compute_sigma A,
                       ech_R0 := R3, ech_S0 := S1, ech_Q0 := Q \<rparr>))"







text \<open>\<open>reset\<close>.\<close>

definition reset :: "Echelonizer \<Rightarrow> Echelonizer" where
  "reset E = E\<lparr> ech_R := ech_R0 E, ech_S := ech_S0 E, ech_Q := ech_Q0 E \<rparr>"









text \<open>A default-constructed echelonizer: nothing computed yet.\<close>

definition Echelonizer_new :: Echelonizer where
  "Echelonizer_new =
     \<lparr> ech_lu = \<lparr> lu_rows = 0, lu_cols = 0, lu_matrixLU = mat_of [] 0, lu_permutationP = [],
                   lu_permutationQ = [], lu_maxPivot = 0, lu_threshold = 0 \<rparr>,
       ech_R = mat_of [] 0, ech_S = mat_of [] 0, ech_P = [], ech_Ptr = [], ech_Q = [],
       ech_Qaux = [], ech_inv_ordering = [], ech_M = [], ech_Kb = [], ech_Kn = [],
       ech_R0 = mat_of [] 0, ech_S0 = mat_of [] 0, ech_Q0 = [], ech_threshold = 0,
       ech_sigma = 0 \<rparr>"

text \<open>
  The \<open>1 \<times> 1\<close> matrix with entry \<open>10\<^sup>-\<^sup>1\<^sup>5\<close> and its factorisation (itself), with the
  threshold Eigen starts from, \<open>epsilon\<close> times the size of the diagonal.
\<close>

definition tiny_A :: "real mat" where
  "tiny_A = mat_of [[1 / 10 ^ 15]] 1"

definition tiny_lu :: FullPivLU where
  "tiny_lu = \<lparr> lu_rows = 1, lu_cols = 1, lu_matrixLU = tiny_A, lu_permutationP = [0],
               lu_permutationQ = [0], lu_maxPivot = 1 / 10 ^ 15, lu_threshold = epsilon \<rparr>"

text \<open>The \<open>1 \<times> 2\<close> matrix \<open>[2 1]\<close> and its factorisation (itself).\<close>

definition row_A :: "real mat" where
  "row_A = mat_of [[2, 1]] 2"

definition row_lu :: FullPivLU where
  "row_lu = \<lparr> lu_rows = 1, lu_cols = 2, lu_matrixLU = row_A, lu_permutationP = [0],
              lu_permutationQ = [0, 1], lu_maxPivot = 2, lu_threshold = epsilon \<rparr>"

subsection \<open>Sorting by priority weights\<close>







section \<open>The rank of LU (LU.cpp)\<close>

text \<open>
  \<open>lu.matrixLU().diagonal().cwiseAbs()\<close>, the absolute diagonal of a matrix, and
  \<open>maxCoeff\<close> of a vector that is not empty.
\<close>

definition diagonal_cwiseAbs :: "real mat \<Rightarrow> real list" where
  "diagonal_cwiseAbs M = map (\<lambda>i. \<bar>coeff M i i\<bar>) [0..<min (rows M) (cols M)]"

definition maxCoeff :: "real list \<Rightarrow> real" where
  "maxCoeff D = fold max (tl D) (hd D)"

text \<open>
  The loop of \<open>LU::Impl::decompose\<close> that starts from full rank and walks the diagonal of
  \<open>U\<close> from the bottom: the rank is lowered while the entry is at most the threshold, and
  the walk stops at the first entry above it.
\<close>

function rank_loop :: "real list \<Rightarrow> real \<Rightarrow> nat \<Rightarrow> nat \<Rightarrow> nat \<Rightarrow> nat" where
  "rank_loop D threshold n i r =
     (if i \<le> n then
        (if D ! (n - i) \<le> threshold then rank_loop D threshold n (i + 1) (r - 1) else r)
      else r)"
  by pat_completeness auto

termination
  by (relation "measure (\<lambda>(D, threshold, n, i, r). Suc n - i)") auto

text \<open>
  \<open>LU::Impl::decompose\<close>. Eigen's partial-pivoting factorisation \<open>lu.compute(A)\<close> is the
  parameter \<open>partialPivLU\<close>, which gives the matrix holding \<open>L\<close> and \<open>U\<close> and the indices
  of \<open>P\<close>. \<open>maxCoeff\<close> of an empty diagonal is an assertion failure of Eigen.
\<close>

definition LU_decompose ::
    "(real mat \<Rightarrow> real mat \<times> Indices) \<Rightarrow> LU_Impl \<Rightarrow> real mat \<Rightarrow> failure + LU_Impl" where
  "LU_decompose partialPivLU lu A =
     (let m = rows A; n = cols A
      in if n \<noteq> m then
           Inl (AssertionFailed ''Could not decompose the given matrix, which has different number of rows and columns.'')
         else
           let (M, P) = partialPivLU A;
               eps = epsilon;
               D = diagonal_cwiseAbs M
           in if D = [] then Inl (AssertionFailed ''you are using an empty matrix'')
              else
                let maxdiagcoeff = maxCoeff D;
                    threshold = maxdiagcoeff * eps * real n
                in Inr (lu\<lparr> matrixLU := M, permutationP := P,
                           rank := rank_loop D threshold n 1 n \<rparr>))"

text \<open>An \<open>LU\<close> object that holds no factorisation yet.\<close>

definition LU_new :: LU_Impl where
  "LU_new = \<lparr> matrixLU = mat_of [] 0, permutationP = [], rank = 0 \<rparr>"

text \<open>The \<open>2 \<times> 2\<close> matrix with diagonal \<open>1, 0\<close>.\<close>

definition singular_A :: "real mat" where
  "singular_A = mat_of [[1, 0], [0, 0]] 2"

section \<open>Properties of BasicSolver\<close>

lemma applyNewtonStepping_n:
  "applyNewtonStepping I p s = (I1, s1) \<Longrightarrow> impl_n I1 = impl_n I"
  by (cases "step (options I)")
     (auto simp: applyNewtonStepping_def applyNewtonSteppingAggressive_def
        applyNewtonSteppingConservative_def Let_def)

lemma loop_head_n: "loop_head p I s = (I2, s1) \<Longrightarrow> impl_n I2 = impl_n I"
  by (auto simp: loop_head_def split: prod.splits dest: applyNewtonStepping_n)

lemma loop_tail_n: "impl_n (loop_tail lin_time p I s) = impl_n I"
  by (simp add: loop_tail_def Let_def updateResultErrors_def computeNewtonStep_def
      evaluateObjectiveFunction_def)

lemma solve_loop_n:
  "solve_loop lin_time maxiters p I s = (I', s') \<Longrightarrow> impl_n I' = impl_n I"
proof (induction lin_time maxiters p I s rule: solve_loop.induct)
  case (1 lin_time maxiters p I s)
  show ?case
  proof (cases "iterations (result I) \<le> maxiters \<and> \<not> succeeded (result I)")
    case False
    with "1.prems" show ?thesis by (simp add: solve_loop.simps [of _ _ _ I])
  next
    case True
    obtain I2 s1 where h: "loop_head p I s = (I2, s1)" by (cases "loop_head p I s")
    show ?thesis
    proof (cases "succeeded (result I2)")
      case True
      with \<open>iterations (result I) \<le> maxiters \<and> \<not> succeeded (result I)\<close> h "1.prems"
      show ?thesis by (simp add: solve_loop.simps [of _ _ _ I] loop_head_n)
    next
      case False
      with True h "1.prems"
      have "solve_loop lin_time maxiters p (loop_tail lin_time p I2 s1) s1 = (I', s')"
        by (simp add: solve_loop.simps [of _ _ _ I])
      with "1.IH" [OF True h [symmetric] False]
      have "impl_n I' = impl_n (loop_tail lin_time p I2 s1)" by simp
      then show ?thesis by (simp add: loop_tail_n loop_head_n [OF h])
    qed
  qed
qed

lemma evaluateConstraintFunction_n: "impl_n (evaluateConstraintFunction I s) = impl_n I"
  by (simp add: evaluateConstraintFunction_def Let_def)

lemma initialize_n:
  "initialize lin_time I p s = Inr (I', s') \<Longrightarrow> impl_n I' = impl_n I"
  "initialize lin_time I p s = Inl (e, I', s') \<Longrightarrow> impl_n I' = impl_n I"
  by (auto simp: initialize_def Let_def updateResultErrors_def computeNewtonStep_def
      evaluateObjectiveFunction_def evaluateConstraintFunction_n split: if_splits)

lemma solve_n:
  "solve elapsed lin_time I p s = Inr (r, I', s') \<Longrightarrow> impl_n I' = impl_n I"
  "solve elapsed lin_time I p s = Inl (e, I', s') \<Longrightarrow> impl_n I' = impl_n I"
proof -
  define I0 where "I0 = I\<lparr> result := (result I)\<lparr> succeeded := False \<rparr> \<rparr>"
  have n0: "impl_n I0 = impl_n I" by (simp add: I0_def)
  { assume a: "solve elapsed lin_time I p s = Inr (r, I', s')"
    show "impl_n I' = impl_n I"
    proof (cases "impl_n I = 0")
      case True
      with a show ?thesis by (auto simp: solve_def Let_def)
    next
      case False
      with a obtain I1 s1 where i: "initialize lin_time I0 p s = Inr (I1, s1)"
        by (cases "initialize lin_time I0 p s") (auto simp: solve_def I0_def)
      obtain I2 s2 where l: "solve_loop lin_time (max_iterations (options I)) p
          (I1\<lparr> result := (result I1)\<lparr> iterations := 1 \<rparr> \<rparr>) s1 = (I2, s2)"
        by (cases "solve_loop lin_time (max_iterations (options I)) p
          (I1\<lparr> result := (result I1)\<lparr> iterations := 1 \<rparr> \<rparr>) s1")
      from a False i l have "I' = I2\<lparr> result := (result I2)\<lparr> time := elapsed \<rparr> \<rparr>"
        by (auto simp: solve_def I0_def [symmetric])
      then have "impl_n I' = impl_n I2" by simp
      also have "\<dots> = impl_n I1" using solve_loop_n [OF l] by simp
      also have "\<dots> = impl_n I" using initialize_n(1) [OF i] n0 by simp
      finally show ?thesis .
    qed }
  { assume a: "solve elapsed lin_time I p s = Inl (e, I', s')"
    show "impl_n I' = impl_n I"
    proof (cases "impl_n I = 0")
      case True
      with a show ?thesis by (simp add: solve_def Let_def)
    next
      case False
      with a have "initialize lin_time I0 p s = Inl (e, I', s')"
        by (cases "initialize lin_time I0 p s")
           (auto simp: solve_def I0_def [symmetric] Let_def split: prod.splits)
      from initialize_n(2) [OF this] n0 show ?thesis by simp
    qed }
qed

lemma reachable_no_variables:
  "reachable I \<Longrightarrow> impl_n I = 0 \<Longrightarrow> iterations (result I) = 0 \<and> calls I = []"
proof (induction rule: reachable.induct)
  case (new prob stp)
  then show ?case by (simp add: BasicSolver_new_def Result_default_def Let_def)
next
  case (set_options I opts)
  then show ?case by (simp add: setOptions_def)
next
  case (solved I elapsed lin_time p s r I' s')
  from solved.hyps(2) solved.prems have n: "impl_n I = 0" by (simp add: solve_n)
  with solved.IH solved.hyps(2) show ?case by (auto simp: solve_def Let_def)
next
  case (thrown I elapsed lin_time p s e I' s')
  from thrown.hyps(2) thrown.prems have n: "impl_n I = 0" by (simp add: solve_n)
  with thrown.hyps(2) show ?case by (simp add: solve_def Let_def)
qed

text \<open>
  Claim C10. \<open>BasicSolver::solve\<close> on a problem without variables (\<open>n = 0\<close>) returns at
  once: the result has \<open>succeeded = true\<close> and \<open>iterations = 0\<close>, no callback has been
  evaluated and the caller's state is returned as it was. The number of variables is fixed
  by the constructor, so a solver with \<open>n = 0\<close> never entered the loop and its iteration
  count is still the initial zero.
\<close>

theorem solve_without_variables:
  assumes "reachable I" and "impl_n I = 0"
  shows "\<exists>I'. solve elapsed lin_time I p s = Inr (result I', I', s)
           \<and> succeeded (result I') \<and> iterations (result I') = 0
           \<and> calls I' = calls I"
  using reachable_no_variables [OF assms] assms(2) by (simp add: solve_def Let_def)

theorem solve_without_variables_witness:
  "\<exists>I'. solve 0 0 (BasicSolver_new \<lparr> dims_x = 0, dims_b = 0, dims_h = 0,
              constraints = \<lparr> ilower = [], iupper = [], ifixed = [] \<rparr>,
              objective = (\<lambda>v. \<lparr> obj_f = 0, obj_g = [], obj_H = [], obj_finite = True \<rparr>),
              constraint_h = (\<lambda>v. \<lparr> con_h = [], con_J = [] \<rparr>) \<rparr>
            (\<lambda>i. \<lparr> out_dx = [], out_dy = [], out_rx = [], out_ry = [], out_z = [] \<rparr>))
          \<lparr> params_b = [], params_xlower = [], params_xupper = [], params_xfixed = [] \<rparr>
          \<lparr> state_x = [], state_y = [] \<rparr>
        = Inr (result I', I', \<lparr> state_x = [], state_y = [] \<rparr>)
      \<and> succeeded (result I') \<and> iterations (result I') = 0 \<and> calls I' = []"
proof -
  let ?I = "BasicSolver_new \<lparr> dims_x = 0, dims_b = 0, dims_h = 0,
              constraints = \<lparr> ilower = [], iupper = [], ifixed = [] \<rparr>,
              objective = (\<lambda>v. \<lparr> obj_f = 0, obj_g = [], obj_H = [], obj_finite = True \<rparr>),
              constraint_h = (\<lambda>v. \<lparr> con_h = [], con_J = [] \<rparr>) \<rparr>
            (\<lambda>i. \<lparr> out_dx = [], out_dy = [], out_rx = [], out_ry = [], out_z = [] \<rparr>)"
  have r: "reachable ?I" by (rule reachable.new)
  have n: "impl_n ?I = 0" by (simp add: BasicSolver_new_def)
  have c: "calls ?I = []" by (simp add: BasicSolver_new_def)
  from solve_without_variables [OF r n, of 0 0] c show ?thesis by simp
qed















lemma clamped_inside: "in_bounds lo up a \<Longrightarrow> clamped lo up a = a"
  by (cases lo; cases up) (auto simp: clamped_def in_bounds_def)


lemma fold_update_length: "length (fold (\<lambda>i w. w[i := g i w]) idx v) = length v"
  by (induction idx arbitrary: v) simp_all



lemma clamp_length [simp]:
  "length (clamp_lower idx lo v) = length v" "length (clamp_upper idx up v) = length v"
  unfolding clamp_lower_def clamp_upper_def
  by (rule fold_update_length [where g = "\<lambda>i w. max_lower (w ! i) (lo ! i)"],
      rule fold_update_length [where g = "\<lambda>i w. min_upper (w ! i) (up ! i)"])

lemma assign_at_length [simp]: "length (assign_at idx vals v) = length v"
proof -
  have "length (fold (\<lambda>(i, a) w. w[i := a]) ps v) = length v" for ps :: "(nat \<times> 'a) list"
    by (induction ps arbitrary: v) auto
  then show ?thesis by (simp add: assign_at_def)
qed














section \<open>Properties of ResidualFunction\<close>






section \<open>Properties of LU and Stepper\<close>

lemma select_not_NaN_set: "a \<in> set (select_not_NaN v) \<Longrightarrow> \<not> isNaN a"
  by (auto simp: select_not_NaN_def)

lemma select_not_NaN_nth:
  "i < length v \<Longrightarrow> select_not_NaN v ! i = (if isNaN (v ! i) then Num 0 else v ! i)"
  by (simp add: select_not_NaN_def)

lemma dbl_minus_NaN [simp]: "dbl_minus NaN b = NaN"
  by (cases b) simp_all

lemma select_not_NaN_length [simp]: "length (select_not_NaN v) = length v"
  by (simp add: select_not_NaN_def)

lemma step_of_NaN:
  assumes "i < length (select_not_NaN (map2 dbl_minus a b))" and "isNaN (a ! i)"
  shows "select_not_NaN (map2 dbl_minus a b) ! i = Num 0"
proof -
  from assms(1) have l: "i < length a" "i < length b" by simp_all
  from assms(2) have "a ! i = NaN" by (cases "a ! i") simp_all
  with l show ?thesis by (simp add: select_not_NaN_nth)
qed

lemma LU_solve_bottom:
  assumes "LU_solve Lsolve Usolve lu X = Inr X'" and "rank lu \<le> i" and "i < rows X"
  shows "coeff X' i j = NaN" and "rows X' = rows X"
  using assms
  by (auto simp: LU_solve_def Let_def fill_bottomRows_def assign_topRows_def
      applyThisOnTheLeft_def split: if_splits)

text \<open>
  Claim C3. \<open>LU::solve\<close> fills every row of the solution from the detected rank on
  with \<open>NaN\<close>. Whatever the saddle point solver returns, the steps \<open>dx\<close> and \<open>dy\<close>
  that \<open>Stepper::solve\<close> hands out contain no \<open>NaN\<close>, and a component whose solution
  \<open>xbar\<close> or \<open>ybar\<close> is \<open>NaN\<close> gets the step \<open>0\<close>: the variable stays where it is.
\<close>

theorem NaN_steps_are_zeroed:
  "(\<forall>X'. LU_solve Lsolve Usolve lu X = Inr X' \<longrightarrow>
       (\<forall>i j. rank lu \<le> i \<and> i < rows X \<longrightarrow> coeff X' i j = NaN))
   \<and> (\<forall>I' dx dy. Stepper_solve spsolver_solve I args = Inr (I', dx, dy) \<longrightarrow>
         (\<forall>a \<in> set dx \<union> set dy. \<not> isNaN a)
       \<and> (\<forall>i < length dx. isNaN (stepper_xbar I' ! i) \<longrightarrow> dx ! i = Num 0)
       \<and> (\<forall>i < length dy. isNaN (stepper_ybar I' ! i) \<longrightarrow> dy ! i = Num 0))"
proof (intro conjI allI impI ballI)
  fix X' i j
  assume "LU_solve Lsolve Usolve lu X = Inr X'" and "rank lu \<le> i \<and> i < rows X"
  then show "coeff X' i j = NaN" using LU_solve_bottom(1) by blast
next
  fix I' dx dy a
  assume "Stepper_solve spsolver_solve I args = Inr (I', dx, dy)" and "a \<in> set dx \<union> set dy"
  then show "\<not> isNaN a"
    by (auto simp: Stepper_solve_def Let_def split: if_splits prod.splits
        dest: select_not_NaN_set)
next
  fix I' dx dy i
  assume "Stepper_solve spsolver_solve I args = Inr (I', dx, dy)" and "i < length dx"
    and "isNaN (stepper_xbar I' ! i)"
  then show "dx ! i = Num 0"
    by (auto simp: Stepper_solve_def Let_def split: if_splits prod.splits intro: step_of_NaN)
next
  fix I' dx dy i
  assume "Stepper_solve spsolver_solve I args = Inr (I', dx, dy)" and "i < length dy"
    and "isNaN (stepper_ybar I' ! i)"
  then show "dy ! i = Num 0"
    by (auto simp: Stepper_solve_def Let_def split: if_splits prod.splits intro: step_of_NaN)
qed

theorem NaN_steps_are_zeroed_witness:
  "(\<exists>X'. LU_solve (\<lambda>M X. X) (\<lambda>M X. X) ex_lu ex_rhs = Inr X' \<and> coeff X' 1 0 = NaN)
   \<and> (\<exists>I' dx dy. Stepper_solve (\<lambda>a. ([NaN, Num 5], [NaN])) ex_stepper_impl ex_solve_args
                      = Inr (I', dx, dy)
          \<and> stepper_xbar I' = [NaN, Num 5] \<and> dx ! 0 = Num 0 \<and> dx ! 1 = Num 3 \<and> dy = [Num 0])"
proof -
  note t = NaN_steps_are_zeroed [of "\<lambda>M X. X" "\<lambda>M X. X" ex_lu ex_rhs
      "\<lambda>a. ([NaN, Num 5], [NaN])" ex_stepper_impl ex_solve_args]
  obtain X' where x: "LU_solve (\<lambda>M X. X) (\<lambda>M X. X) ex_lu ex_rhs = Inr X'"
    by (simp add: LU_solve_def ex_lu_def ex_rhs_def Let_def)
  have "rank ex_lu \<le> 1 \<and> 1 < rows ex_rhs" by (simp add: ex_lu_def ex_rhs_def)
  with t x have a: "coeff X' 1 0 = NaN" by blast
  obtain I' dx dy where
    s: "Stepper_solve (\<lambda>a. ([NaN, Num 5], [NaN])) ex_stepper_impl ex_solve_args = Inr (I', dx, dy)"
    and v: "stepper_xbar I' = [NaN, Num 5]" "dx ! 1 = Num 3" "length dx = 2" "length dy = 1"
      "stepper_ybar I' = [NaN]"
    by (simp add: Stepper_solve_def ex_stepper_impl_def ex_solve_args_def Let_def fill_at_def
        select_not_NaN_def)
  from t s have z: "\<forall>i < length dx. isNaN (stepper_xbar I' ! i) \<longrightarrow> dx ! i = Num 0"
    "\<forall>i < length dy. isNaN (stepper_ybar I' ! i) \<longrightarrow> dy ! i = Num 0" by blast+
  from z(1) v have "dx ! 0 = Num 0" by simp
  moreover from z(2) v have "dy ! 0 = Num 0" by simp
  with v(4) have "dy = [Num 0]" by (cases dy) auto
  ultimately show ?thesis using x a s v by blast
qed

lemma fill_at_nth: "i < length v \<Longrightarrow> fill_at idx a v ! i = (if i \<in> set idx then a else v ! i)"
  unfolding fill_at_def by (induction idx arbitrary: v) (auto simp: nth_list_update)

lemma fill_at_length [simp]: "length (fill_at idx a v) = length v"
  unfolding fill_at_def by (induction idx arbitrary: v) auto

text \<open>Rows of unstable variables that hold zero keep it through a column solve.\<close>

lemma solve_column_zero:
  assumes "i \<in> set (sp_iu S)" and "\<forall>j. coeff (fst XY) i j = 0"
  shows "coeff (fst (solve_column S c XY)) i j = 0"
  using assms
  by (auto simp: solve_column_def SaddlePointSolver_solve_def assign_col_def fill_at_nth
      split: prod.splits)

lemma fold_solve_column_zero:
  assumes "i \<in> set (sp_iu S)" and "\<forall>j. coeff (fst XY) i j = 0"
  shows "\<forall>j. coeff (fst (fold (solve_column S) cs XY)) i j = 0"
  using assms(2)
proof (induction cs arbitrary: XY)
  case Nil
  then show ?case by simp
next
  case (Cons c cs)
  have "\<forall>j. coeff (fst (solve_column S c XY)) i j = 0"
    using solve_column_zero [OF assms(1) Cons.prems] by blast
  from Cons.IH [OF this] show ?case by simp
qed

text \<open>
  Claim C7. After \<open>Stepper::sensitivities\<close>, for every parameter column \<open>j\<close> and every
  unstable variable \<open>i\<close>, \<open>dxdp(i, j) = 0\<close> and
  \<open>dzdp(i, j) = dgdp(i, j) + \<Sum>\<^sub>k W(k, i) dydp(k, j)\<close> with the computed \<open>dydp\<close>;
  for every stable variable \<open>dzdp(i, j) = 0\<close>. The saddle point solver is the one that
  decomposed with the same unstable variables; stable and unstable variables are disjoint.
\<close>

theorem sensitivities_of_unstable_variables:
  assumes "Stepper_sensitivities S I args = Inr (dxdp, dydp, dzdp)"
    and "set (sp_iu S) = set (indicesUnstableVariables (sens_stability args))"
  shows "(\<forall>i \<in> set (indicesUnstableVariables (sens_stability args)). \<forall>j.
            coeff dxdp i j = 0
          \<and> coeff dzdp i j = coeff (args_dgdp args) i j
               + (\<Sum>k < rows (stepper_W I). coeff (stepper_W I) k i * coeff dydp k j))
       \<and> (\<forall>i \<in> set (indicesStableVariables (sens_stability args)).
            i \<notin> set (indicesUnstableVariables (sens_stability args)) \<longrightarrow>
            (\<forall>j. coeff dzdp i j = 0))"
proof -
  let ?is = "indicesStableVariables (sens_stability args)"
  let ?iu = "indicesUnstableVariables (sens_stability args)"
  let ?x0 = "assign_rows ?iu (\<lambda>i j. 0) (assign_rows ?is (\<lambda>i j. - coeff (args_dgdp args) i j)
               (args_dxdp args))"
  obtain y0 where
    f: "fold (solve_column S) [0..<cols (args_dxdp args)] (?x0, y0) = (dxdp, dydp)"
    and z: "dzdp = assign_rows ?iu
              (\<lambda>i j. coeff (args_dgdp args) i j
                      + (\<Sum>k < rows (stepper_W I). coeff (stepper_W I) k i * coeff dydp k j))
              (assign_rows ?is (\<lambda>i j. 0) (args_dzdp args))"
    using assms(1)
    by (auto simp: Stepper_sensitivities_def Let_def split: if_splits prod.splits)
  have x: "coeff dxdp i j = 0" if "i \<in> set ?iu" for i j
  proof -
    from that assms(2) have "i \<in> set (sp_iu S)" by simp
    moreover from that have "\<forall>j. coeff (fst (?x0, y0)) i j = 0"
      by (simp add: assign_rows_def)
    ultimately have "\<forall>j. coeff (fst (fold (solve_column S) [0..<cols (args_dxdp args)]
        (?x0, y0))) i j = 0"
      by (rule fold_solve_column_zero)
    with f show ?thesis by simp
  qed
  from z x show ?thesis by (simp add: assign_rows_def)
qed

theorem sensitivities_of_unstable_variables_witness:
  "\<exists>dxdp dydp dzdp. Stepper_sensitivities ex_spsolver ex_sens_stepper ex_sens_args
        = Inr (dxdp, dydp, dzdp)
     \<and> coeff dydp 0 0 = 5 \<and> coeff dxdp 1 0 = 0 \<and> coeff dzdp 1 0 = 14 \<and> coeff dzdp 0 0 = 0"
proof -
  obtain dxdp dydp dzdp where
    r: "Stepper_sensitivities ex_spsolver ex_sens_stepper ex_sens_args = Inr (dxdp, dydp, dzdp)"
    and y: "coeff dydp 0 0 = 5"
    by (simp add: Stepper_sensitivities_def ex_spsolver_def ex_sens_stepper_def ex_sens_args_def
        mat_of_def Let_def solve_column_def SaddlePointSolver_solve_def col_def assign_col_def
        assign_rows_def fill_at_def)
  have u: "set (sp_iu ex_spsolver) = set (indicesUnstableVariables (sens_stability ex_sens_args))"
    by (simp add: ex_spsolver_def ex_sens_args_def)
  note t = sensitivities_of_unstable_variables [OF r u]
  have i: "indicesUnstableVariables (sens_stability ex_sens_args) = [1]"
    "indicesStableVariables (sens_stability ex_sens_args) = [0]"
    by (simp_all add: ex_sens_args_def)
  from t i have "coeff dxdp 1 0 = 0"
    and "coeff dzdp 1 0 = coeff (args_dgdp ex_sens_args) 1 0
          + (\<Sum>k < rows (stepper_W ex_sens_stepper). coeff (stepper_W ex_sens_stepper) k 1
                * coeff dydp k 0)"
    and "coeff dzdp 0 0 = 0" by simp_all
  with y have "coeff dxdp 1 0 = 0 \<and> coeff dzdp 1 0 = 14 \<and> coeff dzdp 0 0 = 0"
    by (simp add: ex_sens_args_def ex_sens_stepper_def mat_of_def)
  with r y show ?thesis by blast
qed

declare forward_subst.simps [simp del] back_subst.simps [simp del]

section \<open>Properties of Echelonizer\<close>











lemma forward_subst_eq:
  "forward_subst L B i j + (\<Sum>k < i. L i k * forward_subst L B k j) = B i j"
  by (subst (1) forward_subst.simps) simp

lemma back_subst_eq:
  "back_subst r U B i j = (B i j - (\<Sum>k \<in> {i<..<r}. U i k * back_subst r U B k j)) / U i i"
  by (rule back_subst.simps)














lemma upt_2: "[0..<2] = [0, Suc 0]"
  by (simp add: numeral_2_eq_2)

lemma compute_fields:
  assumes "compute decompose E A = Inr E'"
  defines "lu \<equiv> decompose A"
  defines "r \<equiv> numBasicVariables lu"
  shows "ech_lu E' = lu" and "ech_Q E' = lu_permutationQ lu"
    and "rows (ech_S E') = r" and "cols (ech_S E') = cols A - r"
    and "ech_threshold E' = \<bar>lu_maxPivot lu\<bar> * lu_threshold lu * real (max (rows A) (cols A))"
    and "ech_sigma E' = compute_sigma A"
    and "ech_Kb E' = [0..<r]" and "ech_Kn E' = [0..<cols A - r]"
    and "\<And>i j. coeff (ech_S E') i j = back_subst r (coeff (lu_matrixLU lu))
           (\<lambda>i j. coeff (lu_matrixLU lu) i (cols (lu_matrixLU lu) - (cols A - r) + j)) i j"
    and "\<And>i k. coeff (ech_R E') i k = (if i < r
           then back_subst r (coeff (lu_matrixLU lu))
                  (forward_subst (coeff (lu_matrixLU lu))
                     (coeff (asPermutation (lu_permutationP lu)))) i k
           else forward_subst (coeff (lu_matrixLU lu))
                  (coeff (asPermutation (lu_permutationP lu))) i k)"
  using assms(1) unfolding lu_def r_def
  by (auto simp: compute_def Let_def assign_topRows_def upper_solve_def unit_lower_solve_def
      topLeftCorner_def topRightCorner_def topRows_def split: if_splits)



text \<open>
  Claim C9. \<open>compute\<close> fails its assertion exactly for the matrices with more rows
  than columns; for every other matrix it returns an echelonizer.
\<close>

theorem compute_requires_wide_matrix:
  "(\<exists>e. compute decompose E A = Inl e) \<longleftrightarrow> cols A < rows A"
  by (auto simp: compute_def Let_def)

subsection \<open>The update with priority weights\<close>


















section \<open>Properties of the rank\<close>

declare rank_loop.simps [simp del]

lemma maxCoeff_Max: "D \<noteq> [] \<Longrightarrow> maxCoeff D = Max (set D)"
  by (cases D) (simp_all add: maxCoeff_def Max.set_eq_fold [symmetric])

text \<open>What the walk from the bottom of the diagonal returns.\<close>

lemma rank_loop_result:
  assumes "1 \<le> i" and "i \<le> Suc n" and "r = Suc n - i"
  shows "rank_loop D t n i r \<le> r
       \<and> (\<forall>j. rank_loop D t n i r \<le> j \<and> j < r \<longrightarrow> D ! j \<le> t)
       \<and> (0 < rank_loop D t n i r \<longrightarrow> D ! (rank_loop D t n i r - 1) > t)"
  using assms
proof (induction D t n i r rule: rank_loop.induct)
  case (1 D t n i r)
  show ?case
  proof (cases "i \<le> n")
    case False
    with "1.prems" have "r = 0" by simp
    with False show ?thesis by (simp add: rank_loop.simps [of D t n i])
  next
    case ile: True
    show ?thesis
    proof (cases "D ! (n - i) \<le> t")
      case le: True
      have e: "rank_loop D t n i r = rank_loop D t n (i + 1) (r - 1)"
        using ile le by (simp add: rank_loop.simps [of D t n i r])
      from "1.prems" ile have p: "1 \<le> i + 1" "i + 1 \<le> Suc n" "r - 1 = Suc n - (i + 1)"
        by simp_all
      note ih = "1.IH" [OF ile le p(1) p(2) p(3)]
      from "1.prems" ile have r: "r - 1 = n - i" "r = Suc (n - i)" by simp_all
      show ?thesis
        unfolding e using ih le r by (auto simp: less_Suc_eq)
    next
      case gt: False
      have e: "rank_loop D t n i r = r"
        using ile gt by (simp add: rank_loop.simps [of D t n i r])
      from "1.prems" ile have r: "r - 1 = n - i" "0 < r" by simp_all
      show ?thesis unfolding e using gt r by simp
    qed
  qed
qed

lemma numBasicVariables_count:
  "numBasicVariables lu =
     length (filter (\<lambda>i. \<bar>coeff (lu_matrixLU lu) i i\<bar>
                 > \<bar>lu_maxPivot lu\<bar> * (if lu_maxPivot lu < 10 * epsilon then 1
                                          else lu_threshold lu))
               [0..<min (lu_rows lu) (lu_cols lu)])"
  by (simp add: numBasicVariables_def lu_rank_def Let_def)

lemma filter_none: "(\<And>x. x \<in> set xs \<Longrightarrow> \<not> P x) \<Longrightarrow> filter P xs = []"
  by (induction xs) simp_all

lemma epsilon_small: "10 * epsilon < 1"
  by (simp add: epsilon_def)

text \<open>
  C6. \<open>LU::decompose\<close> of a square matrix that is not empty walks the absolute diagonal
  of \<open>U\<close> from the bottom with the threshold \<open>maxdiag epsilon n\<close>, where \<open>maxdiag\<close> is the
  largest absolute diagonal entry: every diagonal entry from the rank on is at most the
  threshold, and the one before the rank is above it. The threshold is relative whatever
  the size of the largest pivot. The number of basic variables of the echelonizer is the
  number of diagonal entries above \<open>|maxPivot|\<close> times the threshold of the factorisation,
  and above \<open>|maxPivot|\<close> times 1 when the largest pivot is below \<open>10 epsilon\<close>; with a
  largest pivot that bounds the diagonal this is the number of entries above 1, which is
  zero. The product \<open>|maxPivot| threshold max(m, n)\<close> is the threshold that \<open>compute\<close>
  stores for the later comparisons of pivots.
\<close>

theorem rank_by_thresholded_diagonal:
  assumes "rows A = cols A" and "0 < cols A"
    and "rows (fst (partialPivLU A)) = cols A" and "cols (fst (partialPivLU A)) = cols A"
  shows "(\<exists>lu'. LU_decompose partialPivLU lu A = Inr lu'
            \<and> matrixLU lu' = fst (partialPivLU A) \<and> rank lu' \<le> cols A
            \<and> (\<forall>i. rank lu' \<le> i \<and> i < cols A \<longrightarrow>
                   \<bar>coeff (matrixLU lu') i i\<bar>
                     \<le> Max (set (diagonal_cwiseAbs (matrixLU lu'))) * epsilon * real (cols A))
            \<and> (0 < rank lu' \<longrightarrow>
                   \<bar>coeff (matrixLU lu') (rank lu' - 1) (rank lu' - 1)\<bar>
                     > Max (set (diagonal_cwiseAbs (matrixLU lu'))) * epsilon * real (cols A)))
       \<and> numBasicVariables flu =
           length (filter (\<lambda>i. \<bar>coeff (lu_matrixLU flu) i i\<bar>
                       > \<bar>lu_maxPivot flu\<bar> * (if lu_maxPivot flu < 10 * epsilon then 1
                                                 else lu_threshold flu))
                     [0..<min (lu_rows flu) (lu_cols flu)])
       \<and> (lu_maxPivot flu < 10 * epsilon
            \<and> (\<forall>i < min (lu_rows flu) (lu_cols flu).
                   \<bar>coeff (lu_matrixLU flu) i i\<bar> \<le> lu_maxPivot flu) \<longrightarrow>
          numBasicVariables flu = 0
          \<and> length (filter (\<lambda>i. \<bar>coeff (lu_matrixLU flu) i i\<bar> > 1)
                     [0..<min (lu_rows flu) (lu_cols flu)]) = 0)
       \<and> (\<forall>E'. compute decompose E B = Inr E' \<longrightarrow>
             numBasicVariables (ech_lu E') = numBasicVariables (decompose B)
             \<and> ech_threshold E' = \<bar>lu_maxPivot (decompose B)\<bar> * lu_threshold (decompose B)
                                   * real (max (rows B) (cols B)))"
proof (intro conjI allI impI)
  define M where "M = fst (partialPivLU A)"
  define n where "n = cols A"
  define D where "D = diagonal_cwiseAbs M"
  define t where "t = maxCoeff D * epsilon * real n"
  define lu' where "lu' = lu\<lparr> matrixLU := M, permutationP := snd (partialPivLU A),
                              rank := rank_loop D t n 1 n \<rparr>"
  from assms have l: "length D = n" and d: "\<And>i. i < n \<Longrightarrow> D ! i = \<bar>coeff M i i\<bar>"
    by (simp_all add: D_def diagonal_cwiseAbs_def M_def n_def)
  from l assms(2) have ne: "D \<noteq> []" by (auto simp: n_def)
  have u: "LU_decompose partialPivLU lu A = Inr lu'"
    using assms(1) ne
    by (auto simp: LU_decompose_def Let_def lu'_def M_def n_def D_def t_def
        split: prod.splits)
  have f: "matrixLU lu' = M" "rank lu' = rank_loop D t n 1 n" by (simp_all add: lu'_def)
  have t: "Max (set (diagonal_cwiseAbs M)) * epsilon * real n = t"
    using ne by (simp add: t_def maxCoeff_Max D_def)
  note r = rank_loop_result [where i = 1 and n = n and r = n and D = D and t = t]
  from r have r1: "rank lu' \<le> n" by (simp add: f)
  have r2: "\<bar>coeff M i i\<bar> \<le> t" if "rank lu' \<le> i \<and> i < n" for i
    using r that d [of i] by (auto simp: f)
  have r3: "\<bar>coeff M (rank lu' - 1) (rank lu' - 1)\<bar> > t" if "0 < rank lu'"
  proof -
    from that r1 have "rank lu' - 1 < n" by simp
    from d [OF this] r that show ?thesis by (auto simp: f)
  qed
  show "\<exists>lu'. LU_decompose partialPivLU lu A = Inr lu'
            \<and> matrixLU lu' = fst (partialPivLU A) \<and> rank lu' \<le> cols A
            \<and> (\<forall>i. rank lu' \<le> i \<and> i < cols A \<longrightarrow>
                   \<bar>coeff (matrixLU lu') i i\<bar>
                     \<le> Max (set (diagonal_cwiseAbs (matrixLU lu'))) * epsilon * real (cols A))
            \<and> (0 < rank lu' \<longrightarrow>
                   \<bar>coeff (matrixLU lu') (rank lu' - 1) (rank lu' - 1)\<bar>
                     > Max (set (diagonal_cwiseAbs (matrixLU lu'))) * epsilon * real (cols A))"
    using u r1 r2 r3 unfolding f(1) t M_def [symmetric] n_def [symmetric]
    by (intro exI [of _ lu']) (simp add: f(1) t)
next
  show "numBasicVariables flu =
           length (filter (\<lambda>i. \<bar>coeff (lu_matrixLU flu) i i\<bar>
                       > \<bar>lu_maxPivot flu\<bar> * (if lu_maxPivot flu < 10 * epsilon then 1
                                                 else lu_threshold flu))
                     [0..<min (lu_rows flu) (lu_cols flu)])"
    by (rule numBasicVariables_count)
next
  assume a: "lu_maxPivot flu < 10 * epsilon
            \<and> (\<forall>i < min (lu_rows flu) (lu_cols flu).
                   \<bar>coeff (lu_matrixLU flu) i i\<bar> \<le> lu_maxPivot flu)"
  have "filter (\<lambda>i. \<bar>coeff (lu_matrixLU flu) i i\<bar> > \<bar>lu_maxPivot flu\<bar> * 1)
          [0..<min (lu_rows flu) (lu_cols flu)] = []"
    using a by (intro filter_none) auto
  with a show "numBasicVariables flu = 0" by (simp add: numBasicVariables_count)
  have "filter (\<lambda>i. \<bar>coeff (lu_matrixLU flu) i i\<bar> > 1)
          [0..<min (lu_rows flu) (lu_cols flu)] = []"
    using a epsilon_small by (intro filter_none) fastforce
  then show "length (filter (\<lambda>i. \<bar>coeff (lu_matrixLU flu) i i\<bar> > 1)
                     [0..<min (lu_rows flu) (lu_cols flu)]) = 0" by simp
next
  fix E'
  assume c: "compute decompose E B = Inr E'"
  from compute_fields(1) [OF c]
  show "numBasicVariables (ech_lu E') = numBasicVariables (decompose B)" by simp
  from compute_fields(5) [OF c]
  show "ech_threshold E' = \<bar>lu_maxPivot (decompose B)\<bar> * lu_threshold (decompose B)
                                   * real (max (rows B) (cols B))" .
qed

theorem rank_by_thresholded_diagonal_witness:
  "rows singular_A = cols singular_A \<and> 0 < cols singular_A
   \<and> rows (fst ((\<lambda>A. (A, [0, 1])) singular_A)) = cols singular_A
   \<and> cols (fst ((\<lambda>A. (A, [0, 1])) singular_A)) = cols singular_A
   \<and> map_sum id rank (LU_decompose (\<lambda>A. (A, [0, 1])) LU_new singular_A) = Inr 1
   \<and> lu_maxPivot tiny_lu < 10 * epsilon
   \<and> \<bar>coeff (lu_matrixLU tiny_lu) 0 0\<bar> \<le> lu_maxPivot tiny_lu
   \<and> numBasicVariables tiny_lu = 0
   \<and> (\<exists>E'. compute (\<lambda>A. row_lu) Echelonizer_new row_A = Inr E'
          \<and> ech_threshold E' = 4 * epsilon)"
proof -
  have h: "rows singular_A = cols singular_A" "0 < cols singular_A"
    "rows (fst ((\<lambda>A. (A, [0, 1])) singular_A)) = cols singular_A"
    "cols (fst ((\<lambda>A. (A, [0, 1])) singular_A)) = cols singular_A"
    by (simp_all add: singular_A_def mat_of_def)
  note t = rank_by_thresholded_diagonal [where A = singular_A
      and partialPivLU = "\<lambda>A. (A, [0, 1])" and lu = LU_new and flu = tiny_lu
      and decompose = "\<lambda>A. row_lu" and E = Echelonizer_new and B = row_A, OF h]
  have mx: "Max (set (diagonal_cwiseAbs singular_A)) = 1"
    by (simp add: diagonal_cwiseAbs_def singular_A_def mat_of_def upt_2)
  have c: "cols singular_A = 2" "\<bar>coeff singular_A 0 0\<bar> = 1" "\<bar>coeff singular_A 1 1\<bar> = 0"
    by (simp_all add: singular_A_def mat_of_def)
  from t obtain lu' where u: "LU_decompose (\<lambda>A. (A, [0, 1])) LU_new singular_A = Inr lu'"
    and m: "matrixLU lu' = singular_A" and le: "rank lu' \<le> 2"
    and lo: "\<forall>i. rank lu' \<le> i \<and> i < 2 \<longrightarrow> \<bar>coeff singular_A i i\<bar> \<le> 1 * epsilon * 2"
    and hi: "0 < rank lu' \<longrightarrow>
               \<bar>coeff singular_A (rank lu' - 1) (rank lu' - 1)\<bar> > 1 * epsilon * 2"
    unfolding c(1) by (auto simp: mx)
  have "rank lu' \<noteq> 0"
  proof
    assume "rank lu' = 0"
    with lo have "\<bar>coeff singular_A 0 0\<bar> \<le> 1 * epsilon * 2" by simp
    with c(2) show False by (simp add: epsilon_def)
  qed
  moreover have "rank lu' \<noteq> 2"
  proof
    assume "rank lu' = 2"
    with hi have "\<bar>coeff singular_A 1 1\<bar> > 1 * epsilon * 2" by simp
    with c(3) show False by (simp add: epsilon_def)
  qed
  ultimately have "rank lu' = 1" using le by simp
  with u have a: "map_sum id rank (LU_decompose (\<lambda>A. (A, [0, 1])) LU_new singular_A) = Inr 1"
    by simp
  have p: "lu_maxPivot tiny_lu < 10 * epsilon"
    "\<bar>coeff (lu_matrixLU tiny_lu) 0 0\<bar> \<le> lu_maxPivot tiny_lu"
    "min (lu_rows tiny_lu) (lu_cols tiny_lu) = 1"
    by (simp_all add: tiny_lu_def tiny_A_def mat_of_def epsilon_def)
  with t have b: "numBasicVariables tiny_lu = 0" by simp
  have "\<exists>E'. compute (\<lambda>A. row_lu) Echelonizer_new row_A = Inr E'"
    by (simp add: compute_def Let_def row_A_def mat_of_def)
  then obtain E' where e: "compute (\<lambda>A. row_lu) Echelonizer_new row_A = Inr E'" by blast
  with t have "ech_threshold E' = \<bar>lu_maxPivot row_lu\<bar> * lu_threshold row_lu
                                   * real (max (rows row_A) (cols row_A))" by blast
  then have "ech_threshold E' = 4 * epsilon"
    by (simp add: row_lu_def row_A_def mat_of_def)
  with e h a p(1,2) b show ?thesis by blast
qed

text \<open>
  The \<open>1 \<times> 1\<close> matrix \<open>[10\<^sup>-\<^sup>1\<^sup>5]\<close>, factorised as itself. Its largest pivot is below
  \<open>10 epsilon\<close> and its only diagonal entry is not above 1, yet \<open>LU::decompose\<close> gives
  rank 1: its threshold stays \<open>maxdiag epsilon n\<close>.
\<close>

theorem tiny_pivot_rank_counterexample:
  "Max (set (diagonal_cwiseAbs tiny_A)) < 10 * epsilon
   \<and> \<not> \<bar>coeff tiny_A 0 0\<bar> > 1
   \<and> map_sum id rank (LU_decompose (\<lambda>A. (A, [0])) LU_new tiny_A) = Inr 1"
proof -
  have d: "diagonal_cwiseAbs tiny_A = [1 / 10 ^ 15]"
    by (simp add: diagonal_cwiseAbs_def tiny_A_def mat_of_def)
  have c: "rows tiny_A = 1" "cols tiny_A = 1" "coeff tiny_A 0 0 = 1 / 10 ^ 15"
    by (simp_all add: tiny_A_def mat_of_def)
  have "rank_loop [1 / 10 ^ 15] (1 / 10 ^ 15 * epsilon * 1) 1 1 1 = 1"
    by (subst rank_loop.simps) (simp add: epsilon_def)
  then have "map_sum id rank (LU_decompose (\<lambda>A. (A, [0])) LU_new tiny_A) = Inr 1"
    by (simp add: LU_decompose_def Let_def d c maxCoeff_def)
  moreover have "Max (set (diagonal_cwiseAbs tiny_A)) < 10 * epsilon"
    unfolding d by (simp add: epsilon_def)
  moreover have "\<not> \<bar>coeff tiny_A 0 0\<bar> > 1" by (simp add: c)
  ultimately show ?thesis by blast
qed

end
